theory Spec2Isabelle
  imports Main
begin

section \<open>Strings\<close>

text \<open>
  Names are modelled as \<open>string\<close> over ASCII. \<open>title\<close> is Python's \<open>str.title()\<close>: a
  letter that follows a cased letter is lowered, a letter that does not is raised, and
  every other character is kept and ends the word. Only \<open>a\<close>..\<open>z\<close> and \<open>A\<close>..\<open>Z\<close> count
  as cased.
\<close>

definition islower :: "char \<Rightarrow> bool" where
  "islower c = (let n = (of_char c :: nat) in 97 \<le> n \<and> n \<le> 122)"

definition isupper :: "char \<Rightarrow> bool" where
  "isupper c = (let n = (of_char c :: nat) in 65 \<le> n \<and> n \<le> 90)"

definition toupper :: "char \<Rightarrow> char" where
  "toupper c = (if islower c then char_of ((of_char c :: nat) - 32) else c)"

definition tolower :: "char \<Rightarrow> char" where
  "tolower c = (if isupper c then char_of ((of_char c :: nat) + 32) else c)"

fun title_from :: "bool \<Rightarrow> string \<Rightarrow> string" where
  "title_from previous_is_cased [] = []"
| "title_from previous_is_cased (c # cs) =
     (if islower c then
        (if previous_is_cased then c else toupper c) # title_from True cs
      else if isupper c then
        (if previous_is_cased then tolower c else c) # title_from True cs
      else c # title_from False cs)"

definition title :: "string \<Rightarrow> string" where
  "title s = title_from False s"

section \<open>Data model\<close>

text \<open>
  A row of the content type table: the application label, the model name and the
  human-readable name of a record type.
\<close>

record content_type =
  app_label :: string
  model :: string
  name :: string

text \<open>
  The type registry as the module sees it. \<open>get_models\<close> lists the registered record
  types in the registry's order, \<open>implements_reviewable\<close> tells whether a type derives
  from \<open>Reviewable\<close>, and \<open>get_for_model\<close> is \<open>ContentType.objects.get_for_model\<close>.
\<close>

record 'k registry =
  get_models :: "'k list"
  implements_reviewable :: "'k \<Rightarrow> bool"
  get_for_model :: "'k \<Rightarrow> content_type"

text \<open>
  A record that a Review can point to: its primary key and its string form (what
  \<open>__unicode__\<close> returns, for \<open>Product\<close> its name).
\<close>

record model_instance =
  id_of :: int
  str_of :: string

record review =
  \<comment> \<open>Modelled from the spec: \<open>reviews/models.py\<close>, which declares \<open>Review\<close>, is missing. The
      spec gives a Review the reviewed type and the reviewed record's id (the polymorphic
      reference), the reviewing user, a numeric score, a comment, the approved and
      anonymous flags, the created timestamp and the updated flag; the field names are
      those the admin module uses.\<close>
  review_id :: int
  content_type :: content_type
  object_id :: int
  user :: string
  score :: int
  comment :: string
  comment_approved :: bool
  anonymous :: bool
  created :: nat
  is_updated :: bool

text \<open>
  The stored records of every type, by content type and primary key. Reading
  \<open>obj.reviewed_object\<close> resolves the polymorphic reference against it; the framework
  yields \<open>None\<close> when no such record exists.
\<close>

type_synonym store = "content_type \<Rightarrow> int \<rightharpoonup> model_instance"

definition reviewed_object :: "store \<Rightarrow> review \<Rightarrow> model_instance option" where
  "reviewed_object db obj = db (content_type obj) (object_id obj)"

text \<open>
  The URL resolver: \<open>reverse\<close> maps a route name and its arguments to a URL, and raises
  \<open>NoReverseMatch\<close> (here \<open>None\<close>) when no route matches.
\<close>

type_synonym resolver = "string \<Rightarrow> int list \<Rightarrow> string option"

datatype error = AttributeError | NoReverseMatch

section \<open>Link renderers\<close>

definition anchor :: "string \<Rightarrow> string \<Rightarrow> string" where
  \<comment> \<open>the format \<open><a href='%s'>%s</a>\<close> applied to a URL and a label\<close>
  "anchor url label = ''<a href='' @ [CHR 0x27] @ url @ [CHR 0x27] @ ''>'' @ label @ ''</a>''"

definition changelist_route :: "content_type \<Rightarrow> string" where
  "changelist_route ct = ''admin:'' @ app_label ct @ ''_'' @ model ct @ ''_changelist''"

definition change_route :: "content_type \<Rightarrow> string" where
  "change_route ct = ''admin:'' @ app_label ct @ ''_'' @ model ct @ ''_change''"

definition reviewed_model_linked :: "resolver \<Rightarrow> review \<Rightarrow> error + string" where
  "reviewed_model_linked reverse obj =
     (case reverse (changelist_route (content_type obj)) [] of
        None \<Rightarrow> Inl NoReverseMatch
      | Some url \<Rightarrow> Inr (anchor url (title (name (content_type obj)))))"

text \<open>
  The arguments of \<open>reverse\<close> are evaluated before the call, so reading \<open>.id\<close> of a missing
  record raises \<open>AttributeError\<close> before any route is looked up.
\<close>

definition reviewed_object_linked :: "resolver \<Rightarrow> store \<Rightarrow> review \<Rightarrow> error + string" where
  "reviewed_object_linked reverse db obj =
     (case reviewed_object db obj of
        None \<Rightarrow> Inl AttributeError
      | Some target \<Rightarrow>
          (case reverse (change_route (content_type obj)) [id_of target] of
             None \<Rightarrow> Inl NoReverseMatch
           | Some url \<Rightarrow> Inr (anchor url (str_of target))))"

section \<open>Reviewable-type enumerator\<close>

definition get_reviewable_model_classes :: "'k registry \<Rightarrow> 'k list" where
  \<comment> \<open>Modelled from the spec: \<open>reviews/utils.py\<close>, which holds \<open>get_reviewable_model_classes\<close>,
      is missing. The spec has it list the record types that implement the Reviewable
      capability, in the order of the type registry.\<close>
  "get_reviewable_model_classes reg = filter (implements_reviewable reg) (get_models reg)"

text \<open>
  \<open>get_reviewable_models\<close> starts from the empty list and appends one pair per class of
  \<open>get_reviewable_model_classes()\<close>, in the order of the loop.
\<close>

definition get_reviewable_models :: "'k registry \<Rightarrow> (string \<times> string) list" where
  "get_reviewable_models reg =
     fold (\<lambda>klass reviewable_models.
             reviewable_models @
               [(name (get_for_model reg klass), title (name (get_for_model reg klass)))])
          (get_reviewable_model_classes reg) []"

section \<open>Dynamic filter\<close>

definition parameter_name :: string where
  "parameter_name = ''reviewed_model''"

definition lookups :: "'k registry \<Rightarrow> (string \<times> string) list option" where
  "lookups reg =
     (if length (get_reviewable_models reg) < 2 then None
      else Some (get_reviewable_models reg))"

text \<open>
  The request carries the query parameters; the filter's selected value is the one given
  for \<open>parameter_name\<close>, if any.
\<close>

type_synonym request = "string \<rightharpoonup> string"

definition filter_value :: "request \<Rightarrow> string option" where
  "filter_value request = request parameter_name"

text \<open>
  A queryset is the list of its rows; \<open>filter(content_type__name=v)\<close> keeps the rows whose
  content type has name \<open>v\<close>. With no selected value the method falls off its end and
  returns \<open>None\<close>.
\<close>

definition queryset :: "request \<Rightarrow> review list \<Rightarrow> review list option" where
  "queryset request qs =
     (case filter_value request of
        Some v \<Rightarrow> Some (filter (\<lambda>r. name (content_type r) = v) qs)
      | None \<Rightarrow> None)"

text \<open>
  How the admin change list uses a list filter: the choices are those of \<open>lookups\<close>, none
  when it returns \<open>None\<close>; the rows are those of \<open>queryset\<close>, and the ones it had when
  \<open>queryset\<close> returns \<open>None\<close>.
\<close>

definition lookup_choices :: "'k registry \<Rightarrow> (string \<times> string) list" where
  "lookup_choices reg = (case lookups reg of None \<Rightarrow> [] | Some choices \<Rightarrow> choices)"

definition apply_list_filter :: "request \<Rightarrow> review list \<Rightarrow> review list" where
  "apply_list_filter request qs = (case queryset request qs of None \<Rightarrow> qs | Some new_qs \<Rightarrow> new_qs)"

section \<open>Admin registration\<close>

datatype admin_field = Callable string | Field string

abbreviation reviewed_model_linked_column :: admin_field where
  "reviewed_model_linked_column \<equiv> Callable ''reviewed_model_linked''"

abbreviation reviewed_object_linked_column :: admin_field where
  "reviewed_object_linked_column \<equiv> Callable ''reviewed_object_linked''"

datatype admin_filter = ListFilter string | FieldFilter string

definition list_display :: "admin_field list" where
  "list_display =
     [Field ''id'', reviewed_model_linked_column, reviewed_object_linked_column,
      Field ''user'', Field ''score'', Field ''comment'', Field ''comment_approved'']"

definition list_filter :: "admin_filter list" where
  "list_filter =
     [ListFilter ''ReviewedModelListFilter'', FieldFilter ''comment_approved'',
      FieldFilter ''score'']"

definition readonly_fields :: "admin_field list" where
  "readonly_fields =
     [reviewed_model_linked_column, reviewed_object_linked_column,
      Field ''user'', Field ''score'', Field ''created'', Field ''is_updated'']"

definition fields :: "admin_field list" where
  "fields = readonly_fields @ [Field ''comment'', Field ''anonymous'', Field ''comment_approved'']"

text \<open>
  The number of distinct record types of the registry that implement the Reviewable
  capability.
\<close>

definition reviewable_count :: "'k registry \<Rightarrow> nat" where
  "reviewable_count reg = card (set (filter (implements_reviewable reg) (get_models reg)))"

section \<open>Example data\<close>

text \<open>
  A small installation used to run the definitions: three record types, of which
  \<open>Seller\<close> and \<open>Product\<close> are reviewable, one stored product, and the admin routes of
  the product type.
\<close>

datatype klass = Plain | Seller | Product

definition seller_type :: content_type where
  "seller_type = \<lparr>app_label = ''tests'', model = ''seller'', name = ''seller''\<rparr>"

definition product_type :: content_type where
  "product_type = \<lparr>app_label = ''tests'', model = ''product'', name = ''product''\<rparr>"

definition plain_type :: content_type where
  "plain_type = \<lparr>app_label = ''tests'', model = ''plain'', name = ''plain''\<rparr>"

fun klass_type :: "klass \<Rightarrow> content_type" where
  "klass_type Plain = plain_type"
| "klass_type Seller = seller_type"
| "klass_type Product = product_type"

fun klass_reviewable :: "klass \<Rightarrow> bool" where
  "klass_reviewable Plain = False"
| "klass_reviewable Seller = True"
| "klass_reviewable Product = True"

definition registry_of :: "klass list \<Rightarrow> klass registry" where
  "registry_of ks =
     \<lparr>get_models = ks, implements_reviewable = klass_reviewable, get_for_model = klass_type\<rparr>"

definition widget :: model_instance where
  "widget = \<lparr>id_of = 7, str_of = ''Widget''\<rparr>"

definition example_store :: store where
  "example_store ct pk = (if ct = product_type \<and> pk = 7 then Some widget else None)"

definition review_on :: "content_type \<Rightarrow> int \<Rightarrow> review" where
  "review_on ct pk =
     \<lparr>review_id = 1, content_type = ct, object_id = pk, user = ''alice'', score = 5,
      comment = ''fine'', comment_approved = True, anonymous = False, created = 0,
      is_updated = False\<rparr>"

definition product_routes :: resolver where
  "product_routes route args =
     (if route = ''admin:tests_product_changelist'' \<and> args = [] then
        Some ''/admin/tests/product/''
      else if route = ''admin:tests_product_change'' \<and> args = [7] then
        Some ''/admin/tests/product/7/''
      else None)"

definition no_routes :: resolver where
  "no_routes route args = None"

section \<open>Properties of the enumerator\<close>

lemma fold_append_pairs:
  "fold (\<lambda>x acc. acc @ [f x]) xs acc0 = acc0 @ map f xs"
  by (induction xs arbitrary: acc0) simp_all

lemma get_reviewable_models_map:
  "get_reviewable_models reg =
     map (\<lambda>klass. (name (get_for_model reg klass), title (name (get_for_model reg klass))))
         (get_reviewable_model_classes reg)"
  unfolding get_reviewable_models_def by (simp add: fold_append_pairs)

lemma title_product: "title ''product'' = ''Product''"
  by code_simp

lemma registry_of_simps:
  "get_models (registry_of ks) = ks"
  "implements_reviewable (registry_of ks) = klass_reviewable"
  "get_for_model (registry_of ks) = klass_type"
  by (simp_all add: registry_of_def)

text \<open>
  A registry lists each record type once; then the number of reviewable types is the
  number of pairs the enumerator yields.
\<close>

lemma reviewable_count_length:
  "distinct (get_models reg) \<Longrightarrow>
     reviewable_count reg = length (get_reviewable_models reg)"
proof -
  assume "distinct (get_models reg)"
  then have "distinct (filter (implements_reviewable reg) (get_models reg))"
    by (rule distinct_filter)
  then have "reviewable_count reg = length (filter (implements_reviewable reg) (get_models reg))"
    unfolding reviewable_count_def by (rule distinct_card)
  then show ?thesis
    by (simp add: get_reviewable_models_map get_reviewable_model_classes_def)
qed

text \<open>The example of the docstring of \<open>get_reviewable_models\<close>.\<close>

lemma get_reviewable_models_example:
  "get_reviewable_models (registry_of [Plain, Seller, Product]) =
     [(''seller'', ''Seller''), (''product'', ''Product'')]"
  by code_simp

text \<open>
  C10. \<open>get_reviewable_models\<close> yields one pair for each class that
  \<open>get_reviewable_model_classes\<close> returned, a class listed twice giving two pairs, and in
  every pair the label is the title-cased key.
\<close>

theorem get_reviewable_models_pairs:
  "length (get_reviewable_models reg) = length (get_reviewable_model_classes reg) \<and>
   (\<forall>p \<in> set (get_reviewable_models reg). snd p = title (fst p))"
  by (auto simp: get_reviewable_models_map)

theorem get_reviewable_models_pairs_witness:
  "length (get_reviewable_models (registry_of [Product, Plain, Product])) = 2 \<and>
   (''product'', ''Product'') \<in> set (get_reviewable_models (registry_of [Product, Plain, Product])) \<and>
   snd (''product'', ''Product'') = title (fst (''product'', ''Product''))"
  using get_reviewable_models_pairs [of "registry_of [Product, Plain, Product]"]
  by (simp add: get_reviewable_models_map get_reviewable_model_classes_def registry_of_def
      product_type_def title_product)

text \<open>
  C5. \<open>get_reviewable_models\<close> returns the (key, label) pairs of exactly the types of the
  registry that implement the Reviewable capability, in the registry's order; when no
  class is returned, it returns the empty list.
\<close>

theorem get_reviewable_models_reviewable:
  "get_reviewable_models reg =
     map (\<lambda>klass. (name (get_for_model reg klass), title (name (get_for_model reg klass))))
       (filter (implements_reviewable reg) (get_models reg)) \<and>
   (get_reviewable_model_classes reg = [] \<longrightarrow> get_reviewable_models reg = [])"
  by (simp add: get_reviewable_models_map get_reviewable_model_classes_def)

theorem get_reviewable_models_reviewable_witness:
  "get_reviewable_model_classes (registry_of [Plain]) = [] \<and>
   get_reviewable_models (registry_of [Plain]) = []"
  using get_reviewable_models_reviewable [of "registry_of [Plain]"]
  by (simp add: get_reviewable_model_classes_def registry_of_simps)

section \<open>Properties of the filter\<close>

text \<open>
  C9. Whatever the registry holds, \<open>lookups\<close> returns \<open>None\<close> or a list of at least two
  choices: never the empty list, never a list of one.
\<close>

theorem lookups_none_or_two:
  "lookups reg = None \<or> (\<exists>choices. lookups reg = Some choices \<and> 2 \<le> length choices)"
  by (simp add: lookups_def)

text \<open>
  C2. In a registry that lists each record type once, when fewer than two record types
  (none or one) implement the Reviewable capability, \<open>lookups\<close> returns \<open>None\<close>: the
  filter offers no choices.
\<close>

theorem lookups_hidden:
  assumes "distinct (get_models reg)" and "reviewable_count reg < 2"
  shows "lookups reg = None"
  using assms by (simp add: lookups_def reviewable_count_length)

theorem lookups_hidden_witness:
  "distinct (get_models (registry_of [Plain, Product])) \<and>
   reviewable_count (registry_of [Plain, Product]) = 1 \<and>
   lookups (registry_of [Plain, Product]) = None \<and>
   reviewable_count (registry_of [Plain]) = 0 \<and>
   lookups (registry_of [Plain]) = None"
  using lookups_hidden [of "registry_of [Plain, Product]"] lookups_hidden [of "registry_of [Plain]"]
  by (simp add: registry_of_simps reviewable_count_def)

text \<open>
  C3. In a registry that lists each record type once, with \<open>n\<close> distinct reviewable
  types the choice list of the filter has length \<open>n\<close>, except that with exactly one type
  \<open>lookups\<close> returns \<open>None\<close> and the filter has no choices.
\<close>

theorem lookup_choices_length:
  assumes "distinct (get_models reg)"
  shows "(reviewable_count reg \<noteq> 1 \<longrightarrow> length (lookup_choices reg) = reviewable_count reg) \<and>
         (reviewable_count reg = 1 \<longrightarrow> lookups reg = None \<and> lookup_choices reg = [])"
proof -
  let ?n = "length (get_reviewable_models reg)"
  have n: "reviewable_count reg = ?n"
    using assms by (rule reviewable_count_length)
  have "?n \<noteq> 1 \<longrightarrow> length (lookup_choices reg) = ?n"
    by (cases "get_reviewable_models reg") (auto simp: lookup_choices_def lookups_def)
  moreover have "?n = 1 \<longrightarrow> lookups reg = None \<and> lookup_choices reg = []"
    by (simp add: lookup_choices_def lookups_def)
  ultimately show ?thesis
    by (simp only: n)
qed

theorem lookup_choices_length_witness:
  "distinct (get_models (registry_of [Plain, Seller, Product])) \<and>
   reviewable_count (registry_of [Plain, Seller, Product]) = 2 \<and>
   length (lookup_choices (registry_of [Plain, Seller, Product])) = 2 \<and>
   distinct (get_models (registry_of [Seller, Plain])) \<and>
   reviewable_count (registry_of [Seller, Plain]) = 1 \<and>
   lookups (registry_of [Seller, Plain]) = None \<and>
   lookup_choices (registry_of [Seller, Plain]) = [] \<and>
   distinct (get_models (registry_of [Plain])) \<and>
   reviewable_count (registry_of [Plain]) = 0 \<and>
   length (lookup_choices (registry_of [Plain])) = 0"
  using lookup_choices_length [of "registry_of [Plain, Seller, Product]"]
    lookup_choices_length [of "registry_of [Seller, Plain]"]
    lookup_choices_length [of "registry_of [Plain]"]
  by (simp add: registry_of_simps reviewable_count_def)

lemma name_review_on: "name (content_type (review_on ct pk)) = name ct"
  by (simp add: review_on_def)

text \<open>
  C1. When the request selects the type key \<open>k\<close> for \<open>reviewed_model\<close>, \<open>queryset\<close> returns
  the Reviews of its input whose content type has name \<open>k\<close>: every returned Review
  matches, and every matching Review of the input is returned.
\<close>

theorem queryset_selected:
  assumes "request ''reviewed_model'' = Some k"
  shows "\<exists>result. queryset request qs = Some result \<and>
           result = filter (\<lambda>r. name (content_type r) = k) qs \<and>
           (\<forall>r \<in> set result. name (content_type r) = k) \<and>
           (\<forall>r \<in> set qs. name (content_type r) = k \<longrightarrow> r \<in> set result)"
  using assms by (simp add: queryset_def filter_value_def parameter_name_def)

theorem queryset_selected_witness:
  "[''reviewed_model'' \<mapsto> ''product''] ''reviewed_model'' = Some ''product'' \<and>
   queryset [''reviewed_model'' \<mapsto> ''product'']
     [review_on product_type 7, review_on seller_type 1, review_on product_type 8] =
     Some [review_on product_type 7, review_on product_type 8]"
  using queryset_selected [of "[''reviewed_model'' \<mapsto> ''product'']" "''product''"
      "[review_on product_type 7, review_on seller_type 1, review_on product_type 8]"]
  by (simp add: name_review_on product_type_def seller_type_def)

text \<open>
  C6. When the request selects no value for \<open>reviewed_model\<close>, \<open>queryset\<close> filters nothing:
  it returns \<open>None\<close>, and the change list keeps the rows it had.
\<close>

theorem queryset_no_value:
  assumes "request ''reviewed_model'' = None"
  shows "queryset request qs = None \<and> apply_list_filter request qs = qs"
  using assms by (simp add: apply_list_filter_def queryset_def filter_value_def parameter_name_def)

theorem queryset_no_value_witness:
  "Map.empty ''reviewed_model'' = None \<and>
   queryset Map.empty [review_on product_type 7, review_on seller_type 1] = None \<and>
   apply_list_filter Map.empty [review_on product_type 7, review_on seller_type 1] =
     [review_on product_type 7, review_on seller_type 1]"
  using queryset_no_value [of Map.empty "[review_on product_type 7, review_on seller_type 1]"]
  by simp

section \<open>Properties of the link renderers\<close>

lemma reviewed_object_widget:
  "reviewed_object example_store (review_on product_type 7) = Some widget"
  by (simp add: reviewed_object_def example_store_def review_on_def)

lemma reviewed_object_dangling:
  "reviewed_object example_store (review_on product_type 8) = None"
  by (simp add: reviewed_object_def example_store_def review_on_def)

lemma product_routes_changelist:
  "product_routes (changelist_route (content_type (review_on product_type pk))) [] =
     Some ''/admin/tests/product/''"
  by (simp add: product_routes_def changelist_route_def review_on_def product_type_def)

lemma product_routes_change:
  "product_routes (change_route (content_type (review_on product_type pk))) [id_of widget] =
     Some ''/admin/tests/product/7/''"
  by (simp add: product_routes_def change_route_def review_on_def product_type_def widget_def)

lemma title_name_product: "title (name (content_type (review_on product_type pk))) = ''Product''"
  by (simp add: review_on_def product_type_def title_product)

text \<open>
  C4, as amended. For a Review whose reference resolves to an existing record and whose
  type has both admin routes, \<open>reviewed_model_linked\<close> returns the anchor of the type's
  changelist URL labelled with the title-cased type name, and \<open>reviewed_object_linked\<close>
  returns the anchor of the record's change URL labelled with the record's string form.
\<close>

theorem links_of_existing_record:
  assumes "reviewed_object db obj = Some target"
    and "reverse (changelist_route (content_type obj)) [] = Some list_url"
    and "reverse (change_route (content_type obj)) [id_of target] = Some change_url"
  shows "reviewed_model_linked reverse obj =
           Inr (''<a href='' @ [CHR 0x27] @ list_url @ [CHR 0x27] @ ''>'' @
                title (name (content_type obj)) @ ''</a>'') \<and>
         reviewed_object_linked reverse db obj =
           Inr (''<a href='' @ [CHR 0x27] @ change_url @ [CHR 0x27] @ ''>'' @
                str_of target @ ''</a>'')"
  using assms by (simp add: reviewed_model_linked_def reviewed_object_linked_def anchor_def)

theorem links_of_existing_record_witness:
  "reviewed_object example_store (review_on product_type 7) = Some widget \<and>
   product_routes (changelist_route (content_type (review_on product_type 7))) [] =
     Some ''/admin/tests/product/'' \<and>
   product_routes (change_route (content_type (review_on product_type 7))) [id_of widget] =
     Some ''/admin/tests/product/7/'' \<and>
   reviewed_model_linked product_routes (review_on product_type 7) =
     Inr ''<a href='/admin/tests/product/'>Product</a>'' \<and>
   reviewed_object_linked product_routes example_store (review_on product_type 7) =
     Inr ''<a href='/admin/tests/product/7/'>Widget</a>''"
proof -
  note links = links_of_existing_record [OF reviewed_object_widget product_routes_changelist
      product_routes_change]
  have "str_of widget = ''Widget''"
    by (simp add: widget_def)
  with links show ?thesis
    by (simp add: reviewed_object_widget product_routes_changelist product_routes_change
        title_name_product)
qed

text \<open>
  C4 as stated fails: the reference of this Review resolves to a stored product, yet
  with no admin route for its type both renderers raise \<open>NoReverseMatch\<close> and return no
  string.
\<close>

theorem links_unrouted_counterexample:
  "reviewed_object example_store (review_on product_type 7) = Some widget \<and>
   reviewed_model_linked no_routes (review_on product_type 7) = Inl NoReverseMatch \<and>
   reviewed_object_linked no_routes example_store (review_on product_type 7) = Inl NoReverseMatch"
  by (simp add: reviewed_object_widget reviewed_model_linked_def reviewed_object_linked_def
      no_routes_def)

text \<open>
  C8, as amended. Neither renderer catches anything. \<open>reviewed_model_linked\<close> raises
  \<open>NoReverseMatch\<close> when the changelist route does not reverse; when it reverses to a
  URL, it returns the anchor of that URL labelled with the title-cased type name, whether
  or not the reference resolves. \<open>reviewed_object_linked\<close> raises
  \<open>AttributeError\<close> when the reference is dangling, and \<open>NoReverseMatch\<close> when the record
  exists and the change route does not reverse.
\<close>

theorem link_errors_propagate:
  "(reverse (changelist_route (content_type obj)) [] = None \<longrightarrow>
      reviewed_model_linked reverse obj = Inl NoReverseMatch) \<and>
   (\<forall>url. reverse (changelist_route (content_type obj)) [] = Some url \<longrightarrow>
      reviewed_model_linked reverse obj =
        Inr (''<a href='' @ [CHR 0x27] @ url @ [CHR 0x27] @ ''>'' @
             title (name (content_type obj)) @ ''</a>'')) \<and>
   (reviewed_object db obj = None \<longrightarrow>
      reviewed_object_linked reverse db obj = Inl AttributeError) \<and>
   (\<forall>target. reviewed_object db obj = Some target \<and>
      reverse (change_route (content_type obj)) [id_of target] = None \<longrightarrow>
      reviewed_object_linked reverse db obj = Inl NoReverseMatch)"
  by (auto simp: reviewed_model_linked_def reviewed_object_linked_def anchor_def)

theorem link_errors_propagate_witness:
  "no_routes (changelist_route (content_type (review_on product_type 8))) [] = None \<and>
   reviewed_model_linked no_routes (review_on product_type 8) = Inl NoReverseMatch \<and>
   reviewed_object example_store (review_on product_type 8) = None \<and>
   reviewed_object_linked no_routes example_store (review_on product_type 8) = Inl AttributeError \<and>
   reviewed_object example_store (review_on product_type 7) = Some widget \<and>
   no_routes (change_route (content_type (review_on product_type 7))) [id_of widget] = None \<and>
   reviewed_object_linked no_routes example_store (review_on product_type 7) = Inl NoReverseMatch \<and>
   product_routes (changelist_route (content_type (review_on product_type 8))) [] =
     Some ''/admin/tests/product/'' \<and>
   reviewed_model_linked product_routes (review_on product_type 8) =
     Inr ''<a href='/admin/tests/product/'>Product</a>''"
  using link_errors_propagate [of no_routes "review_on product_type 8" example_store]
    link_errors_propagate [of no_routes "review_on product_type 7" example_store]
    link_errors_propagate [of product_routes "review_on product_type 8" example_store]
  by (simp add: reviewed_object_widget reviewed_object_dangling no_routes_def
      product_routes_changelist title_name_product)

text \<open>
  C8 as stated fails: the reference of this Review is dangling, yet
  \<open>reviewed_model_linked\<close>, which never reads the referenced record, raises nothing and
  returns the link to the changelist of the type.
\<close>

theorem dangling_model_link_counterexample:
  "reviewed_object example_store (review_on product_type 8) = None \<and>
   reviewed_model_linked product_routes (review_on product_type 8) =
     Inr ''<a href='/admin/tests/product/'>Product</a>''"
  by (simp add: reviewed_object_dangling reviewed_model_linked_def product_routes_changelist
      title_name_product anchor_def)

section \<open>Properties of the admin registration\<close>

text \<open>
  C7. The read-only fields are the two rendered links, user, score, created and
  is_updated; the full field list is the read-only one followed by comment, anonymous
  and comment_approved, and nothing else.
\<close>

theorem review_admin_fields:
  "readonly_fields =
     [Callable ''reviewed_model_linked'', Callable ''reviewed_object_linked'',
      Field ''user'', Field ''score'', Field ''created'', Field ''is_updated''] \<and>
   fields = readonly_fields @ [Field ''comment'', Field ''anonymous'', Field ''comment_approved''] \<and>
   set fields - set readonly_fields =
     {Field ''comment'', Field ''anonymous'', Field ''comment_approved''} \<and>
   length fields = 9 \<and> distinct fields"
  by (auto simp: fields_def readonly_fields_def)

end
